theory Spec2Isabelle
  imports Main
begin

section \<open>The vLEI verifier client: data model\<close>

text \<open>
  The client (\<^verbatim>\<open>src/vlei_verifier_client.py\<close>) has two classes. The adapter
  \<^verbatim>\<open>_VerifierServiceAdapter\<close> turns each logical operation into one call of the
  \<^verbatim>\<open>requests\<close> library and writes trace lines to a module-wide logger; the facade
  \<^verbatim>\<open>VerifierClient\<close> wraps the raw response of the adapter in a
  \<^verbatim>\<open>VerifierResponse\<close>.

  Everything outside the two classes is external to the repository and is
  represented by data: a parsed JSON document is a value of type \<open>json\<close>, a call of
  \<^verbatim>\<open>requests.get/put/post\<close> is the record of its arguments, and the remote service
  together with \<^verbatim>\<open>json.dumps\<close> is an environment the operations are run in.
\<close>

subsection \<open>JSON documents and Python exceptions\<close>

text \<open>
  What \<^verbatim>\<open>res.json()\<close> can return. A Python \<^verbatim>\<open>dict\<close> is an association list in
  insertion order (its keys are distinct in a parsed document); a float is kept as the
  pair of its mantissa and binary exponent.
\<close>

datatype json =
    JNull
  | JBool bool
  | JInt int
  | JFloat int int
  | JStr string
  | JArray "json list"
  | JObject "(string \<times> json) list"

text \<open>The exceptions that can leave the two classes.\<close>

datatype error =
    RequestException        \<comment> \<open>the transport could not complete the call\<close>
  | JSONDecodeError         \<comment> \<open>\<^verbatim>\<open>res.json()\<close> on a body that is not JSON\<close>
  | KeyError string         \<comment> \<open>\<^verbatim>\<open>d[k]\<close> on a dict without key \<^verbatim>\<open>k\<close>\<close>
  | TypeError               \<comment> \<open>\<^verbatim>\<open>v[k]\<close> with a string key on a value that is not a dict\<close>

text \<open>
  The Python subscription \<^verbatim>\<open>v[k]\<close> with a string key \<open>k\<close>: only a dict
  holding the key answers; a dict without it raises \<^verbatim>\<open>KeyError\<close>, every other JSON
  value raises \<^verbatim>\<open>TypeError\<close>.
\<close>

fun getitem :: "json \<Rightarrow> string \<Rightarrow> error + json" where
  "getitem (JObject kvs) k =
     (case map_of kvs k of None \<Rightarrow> Inl (KeyError k) | Some v \<Rightarrow> Inr v)"
| "getitem _ k = Inl TypeError"

subsection \<open>Requests and raw responses\<close>

datatype http_method = GET | PUT | POST

text \<open>
  One call of \<^verbatim>\<open>requests.get\<close>, \<^verbatim>\<open>requests.put\<close> or \<^verbatim>\<open>requests.post\<close>: the
  method, the URL and the keyword arguments \<^verbatim>\<open>headers\<close>, \<^verbatim>\<open>params\<close>, \<^verbatim>\<open>data\<close>
  and \<^verbatim>\<open>json\<close> exactly as the source passes them (an absent keyword is the empty
  list or \<open>None\<close>).
\<close>

record http_request =
  http_verb :: http_method
  url :: string
  headers :: "(string \<times> string) list"
  params :: "(string \<times> string) list"
  data :: "string option"
  json_payload :: "json option"

text \<open>
  The raw \<^verbatim>\<open>requests.Response\<close>, as far as the client reads it: the status code,
  and the body as a parsed document (\<open>None\<close> when the body is not valid JSON).
\<close>

record raw_response =
  status_code :: int
  content :: "json option"

definition res_json :: "raw_response \<Rightarrow> error + json" where
  "res_json res = (case content res of None \<Rightarrow> Inl JSONDecodeError | Some j \<Rightarrow> Inr j)"

text \<open>
  Modelled from the spec: the class \<^verbatim>\<open>VerifierResponse\<close> is imported from
  \<^verbatim>\<open>src.utils\<close>, which is not among the sources. The spec's Normalized Result has
  exactly the three fields \<open>code\<close>, \<open>body\<close> and \<open>message\<close>, and the constructor stores
  its keyword arguments as they are.
\<close>

record VerifierResponse =
  code :: int
  body :: json
  message :: json

subsection \<open>The environment and the observable state\<close>

text \<open>
  The remote service answers a request with a raw response or fails at the transport
  level; \<^verbatim>\<open>json.dumps\<close> is the library's serialiser. Both are parameters.
\<close>

record env =
  send :: "http_request \<Rightarrow> error + raw_response"
  dumps :: "json \<Rightarrow> string"

text \<open>The adapter object: the base URL and the six URLs derived from it in \<^verbatim>\<open>__init__\<close>.\<close>

record VerifierServiceAdapter =
  adapter_base_url :: string
  auths_url :: string
  presentations_url :: string
  reports_url :: string
  verify_signed_headers_url :: string
  verify_signature_url :: string
  add_rot_url :: string

text \<open>The facade object (the adapter's \<^verbatim>\<open>verifier_base_url\<close> is \<open>adapter_base_url\<close>).\<close>

record VerifierClient =
  verifier_base_url :: string
  verifier_service_adapter :: VerifierServiceAdapter

text \<open>
  The state an operation runs in: the client object it is a method of, the lines
  written to the logger so far, and the calls made to \<^verbatim>\<open>requests\<close> so far.
\<close>

record state =
  client :: VerifierClient
  logged :: "string list"
  issued :: "http_request list"

section \<open>The adapter\<close>

definition default_base_url :: string where
  "default_base_url = ''http://localhost:7676''"

definition VerifierServiceAdapter_init :: "string option \<Rightarrow> VerifierServiceAdapter" where
  "VerifierServiceAdapter_init arg =
     (let b = (case arg of None \<Rightarrow> default_base_url | Some u \<Rightarrow> u) in
      \<lparr> adapter_base_url = b,
        auths_url = b @ ''/authorizations/'',
        presentations_url = b @ ''/presentations/'',
        reports_url = b @ ''/reports/'',
        verify_signed_headers_url = b @ ''/request/verify/'',
        verify_signature_url = b @ ''/signature/verify/'',
        add_rot_url = b @ ''/root_of_trust/'' \<rparr>)"

text \<open>
  The methods below run on the adapter held by the client of the state
  (\<^verbatim>\<open>self\<close> is \<open>verifier_service_adapter (client s)\<close>); they return what the Python
  method returns or raises, together with the state they leave.
\<close>

definition logger_info :: "string \<Rightarrow> state \<Rightarrow> state" where
  "logger_info line s = s\<lparr>logged := logged s @ [line]\<rparr>"

text \<open>One call of the \<^verbatim>\<open>requests\<close> library: the call is recorded, the environment answers.\<close>

definition requests_call :: "env \<Rightarrow> http_request \<Rightarrow> state \<Rightarrow> (error + raw_response) \<times> state" where
  "requests_call e req s = (send e req, s\<lparr>issued := issued s @ [req]\<rparr>)"

text \<open>
  The post-call trace line of four of the adapter's methods is
  \<^verbatim>\<open>logger.info(f"...{json.dumps(res.json())}")\<close> followed by \<^verbatim>\<open>return res\<close>: the body
  is parsed to build the line, so a body that is not JSON raises before the line is
  written and before the response is returned.
\<close>

definition log_response :: "env \<Rightarrow> string \<Rightarrow> raw_response \<Rightarrow> state \<Rightarrow> (error + raw_response) \<times> state" where
  "log_response e prefix res s =
     (case res_json res of
        Inl err \<Rightarrow> (Inl err, s)
      | Inr j \<Rightarrow> (Inr res, logger_info (prefix @ dumps e j) s))"

definition check_login_http :: "VerifierServiceAdapter \<Rightarrow> string \<Rightarrow> http_request" where
  "check_login_http a aid =
     \<lparr> http_verb = GET, url = auths_url a @ aid,
       headers = [(''Content-Type'', ''application/json'')],
       params = [], data = None, json_payload = None \<rparr>"

definition check_login_request :: "env \<Rightarrow> string \<Rightarrow> state \<Rightarrow> (error + raw_response) \<times> state" where
  "check_login_request e aid s =
     (let s1 = logger_info (''Check login request sent with: aid = '' @ aid) s;
          (r, s2) = requests_call e (check_login_http (verifier_service_adapter (client s1)) aid) s1
      in case r of
           Inl err \<Rightarrow> (Inl err, s2)
         | Inr res \<Rightarrow> log_response e ''login status: '' res s2)"

definition credential_presentation_http :: "VerifierServiceAdapter \<Rightarrow> string \<Rightarrow> string \<Rightarrow> http_request" where
  "credential_presentation_http a said vlei =
     \<lparr> http_verb = PUT, url = presentations_url a @ said,
       headers = [(''Content-Type'', ''application/json+cesr'')],
       params = [], data = Some vlei, json_payload = None \<rparr>"

definition credential_presentation_request ::
  "env \<Rightarrow> string \<Rightarrow> string \<Rightarrow> state \<Rightarrow> (error + raw_response) \<times> state" where
  "credential_presentation_request e said vlei s =
     (let s1 = logger_info (''Credential presentation request sent with: said = '' @ said) s;
          (r, s2) = requests_call e
                      (credential_presentation_http (verifier_service_adapter (client s1)) said vlei) s1
      in case r of
           Inl err \<Rightarrow> (Inl err, s2)
         | Inr res \<Rightarrow>
             log_response e (''Credential presentation response for said = '' @ said @ '':  '') res s2)"

definition verify_signed_headers_http ::
  "VerifierServiceAdapter \<Rightarrow> string \<Rightarrow> string \<Rightarrow> string \<Rightarrow> http_request" where
  "verify_signed_headers_http a aid sig ser =
     \<lparr> http_verb = POST, url = verify_signed_headers_url a @ aid,
       headers = [],
       params = [(''sig'', sig), (''data'', ser)], data = None, json_payload = None \<rparr>"

definition verify_signed_headers_request ::
  "env \<Rightarrow> string \<Rightarrow> string \<Rightarrow> string \<Rightarrow> state \<Rightarrow> (error + raw_response) \<times> state" where
  "verify_signed_headers_request e aid sig ser s =
     (let s1 = logger_info
                 (''Signed headers verification request sent with aid = '' @ aid
                    @ '', sig = '' @ sig @ '', ser = '' @ ser) s;
          (r, s2) = requests_call e
                      (verify_signed_headers_http (verifier_service_adapter (client s1)) aid sig ser) s1
      in case r of
           Inl err \<Rightarrow> (Inl err, s2)
         | Inr res \<Rightarrow>
             log_response e
               (''Signed headers verification response for aid = '' @ aid
                  @ '', sig = '' @ sig @ '', ser = '' @ ser @ '':  '') res s2)"

definition verify_signature_http ::
  "VerifierServiceAdapter \<Rightarrow> string \<Rightarrow> string \<Rightarrow> string \<Rightarrow> http_request" where
  "verify_signature_http a signature submitter digest =
     \<lparr> http_verb = POST, url = verify_signature_url a,
       headers = [], params = [], data = None,
       json_payload = Some (JObject [(''signature'', JStr signature),
                                     (''signer_aid'', JStr submitter),
                                     (''non_prefixed_digest'', JStr digest)]) \<rparr>"

text \<open>This method returns the response right after the call: it has no post-call line.\<close>

definition verify_signature_request ::
  "env \<Rightarrow> string \<Rightarrow> string \<Rightarrow> string \<Rightarrow> state \<Rightarrow> (error + raw_response) \<times> state" where
  "verify_signature_request e signature submitter digest s =
     (let s1 = logger_info
                 (''Signature verification request sent with signature = '' @ signature
                    @ '', submitter = '' @ submitter @ '', digest = '' @ digest) s;
          (r, s2) = requests_call e
                      (verify_signature_http (verifier_service_adapter (client s1))
                         signature submitter digest) s1
      in case r of
           Inl err \<Rightarrow> (Inl err, s2)
         | Inr res \<Rightarrow> (Inr res, s2))"

definition add_root_of_trust_http ::
  "VerifierServiceAdapter \<Rightarrow> string \<Rightarrow> string \<Rightarrow> string \<Rightarrow> http_request" where
  "add_root_of_trust_http a aid vlei oobi =
     \<lparr> http_verb = POST, url = add_rot_url a @ aid,
       headers = [(''Content-Type'', ''application/json'')],
       params = [], data = None,
       json_payload = Some (JObject [(''vlei'', JStr vlei), (''oobi'', JStr oobi)]) \<rparr>"

definition add_root_of_trust_request ::
  "env \<Rightarrow> string \<Rightarrow> string \<Rightarrow> string \<Rightarrow> state \<Rightarrow> (error + raw_response) \<times> state" where
  "add_root_of_trust_request e aid vlei oobi s =
     (let s1 = logger_info
                 (''Add root of trust request send with: aid = '' @ aid
                    @ '', vlei = '' @ vlei @ '', oobi = '' @ oobi) s;
          (r, s2) = requests_call e
                      (add_root_of_trust_http (verifier_service_adapter (client s1)) aid vlei oobi) s1
      in case r of
           Inl err \<Rightarrow> (Inl err, s2)
         | Inr res \<Rightarrow>
             log_response e
               (''Add root of trust response for aid = '' @ aid
                  @ '', vlei = '' @ vlei @ '', oobi = '' @ oobi @ '':  '') res s2)"

section \<open>The facade\<close>

definition VerifierClient_init :: "string option \<Rightarrow> VerifierClient" where
  "VerifierClient_init arg =
     (let b = (case arg of None \<Rightarrow> default_base_url | Some u \<Rightarrow> u) in
      \<lparr> verifier_base_url = b,
        verifier_service_adapter = VerifierServiceAdapter_init (Some b) \<rparr>)"

text \<open>
  Every facade method ends with the same expression,
  \<^verbatim>\<open>VerifierResponse(code=res.status_code, body=res.json(), message=res.json()["msg"])\<close>:
  the keyword arguments are evaluated from left to right, the body is parsed twice and
  the second document is subscripted.
\<close>

definition make_response :: "raw_response \<Rightarrow> error + VerifierResponse" where
  "make_response res =
     (let c = status_code res in
      case res_json res of
        Inl err \<Rightarrow> Inl err
      | Inr b \<Rightarrow>
          (case res_json res of
             Inl err \<Rightarrow> Inl err
           | Inr b' \<Rightarrow>
               (case getitem b' ''msg'' of
                  Inl err \<Rightarrow> Inl err
                | Inr m \<Rightarrow> Inr \<lparr> code = c, body = b, message = m \<rparr>)))"

text \<open>
  A facade method is the adapter's method followed by that expression: an exception of
  the adapter passes through (nothing is caught), a returned response is normalised.
  The facade itself writes no trace line and makes no call of the transport.
\<close>

definition respond :: "(error + raw_response) \<times> state \<Rightarrow> (error + VerifierResponse) \<times> state" where
  "respond rs = (case fst rs of
                   Inl err \<Rightarrow> (Inl err, snd rs)
                 | Inr res \<Rightarrow> (make_response res, snd rs))"

definition check_login :: "env \<Rightarrow> string \<Rightarrow> state \<Rightarrow> (error + VerifierResponse) \<times> state" where
  "check_login e aid s = respond (check_login_request e aid s)"

definition login :: "env \<Rightarrow> string \<Rightarrow> string \<Rightarrow> state \<Rightarrow> (error + VerifierResponse) \<times> state" where
  "login e said vlei s = respond (credential_presentation_request e said vlei s)"

definition verify_signed_headers ::
  "env \<Rightarrow> string \<Rightarrow> string \<Rightarrow> string \<Rightarrow> state \<Rightarrow> (error + VerifierResponse) \<times> state" where
  "verify_signed_headers e aid sig ser s = respond (verify_signed_headers_request e aid sig ser s)"

definition add_root_of_trust ::
  "env \<Rightarrow> string \<Rightarrow> string \<Rightarrow> string \<Rightarrow> state \<Rightarrow> (error + VerifierResponse) \<times> state" where
  "add_root_of_trust e aid vlei oobi s = respond (add_root_of_trust_request e aid vlei oobi s)"

definition verify_signature ::
  "env \<Rightarrow> string \<Rightarrow> string \<Rightarrow> string \<Rightarrow> state \<Rightarrow> (error + VerifierResponse) \<times> state" where
  "verify_signature e signature signer_aid non_prefixed_digest s =
     respond (verify_signature_request e signature signer_aid non_prefixed_digest s)"

text \<open>The state a freshly constructed client starts in: nothing logged, nothing sent.\<close>

definition new_client :: "string option \<Rightarrow> state" where
  "new_client arg = \<lparr> client = VerifierClient_init arg, logged = [], issued = [] \<rparr>"

section \<open>URL paths\<close>

text \<open>
  How a URL is read on the receiving side (RFC 3986): the path ends at the first
  \<open>?\<close> or \<open>#\<close>, and its segments are separated by \<open>/\<close>. These two functions are
  not part of the client, which never takes a URL apart; they say what it means for an
  identifier to arrive as the last segment of the request path.
\<close>

definition url_path :: "string \<Rightarrow> string" where
  "url_path u = takeWhile (\<lambda>c. c \<noteq> CHR ''?'' \<and> c \<noteq> CHR ''#'') u"

definition last_segment :: "string \<Rightarrow> string" where
  "last_segment p = rev (takeWhile (\<lambda>c. c \<noteq> CHR ''/'') (rev p))"

section \<open>Simulated endpoints\<close>

text \<open>
  Concrete environments for evaluating the operations: an endpoint that answers every
  request with one fixed response, and one that cannot be reached. The serialiser of
  the simulated environments writes a fixed placeholder.
\<close>

definition simulated_endpoint :: "raw_response \<Rightarrow> env" where
  "simulated_endpoint res = \<lparr> send = (\<lambda>req. Inr res), dumps = (\<lambda>j. ''<json>'') \<rparr>"

definition unreachable_endpoint :: env where
  "unreachable_endpoint = \<lparr> send = (\<lambda>req. Inl RequestException), dumps = (\<lambda>j. ''<json>'') \<rparr>"

definition ok_200 :: raw_response where
  "ok_200 = \<lparr> status_code = 200,
              content = Some (JObject [(''msg'', JStr ''ok''), (''aid'', JStr ''EAbc123'')]) \<rparr>"

definition bad_400 :: raw_response where
  "bad_400 = \<lparr> status_code = 400, content = Some (JObject [(''msg'', JStr ''bad'')]) \<rparr>"

definition server_error_500 :: raw_response where
  "server_error_500 = \<lparr> status_code = 500,
                        content = Some (JObject [(''msg'', JStr ''internal error'')]) \<rparr>"

definition no_msg_200 :: raw_response where
  "no_msg_200 = \<lparr> status_code = 200, content = Some (JObject [(''status'', JStr ''ok'')]) \<rparr>"

definition not_json_502 :: raw_response where
  "not_json_502 = \<lparr> status_code = 502, content = None \<rparr>"

section \<open>Basic facts about the operations\<close>

lemmas adapter_defs =
  check_login_request_def credential_presentation_request_def
  verify_signed_headers_request_def verify_signature_request_def
  add_root_of_trust_request_def requests_call_def logger_info_def log_response_def
  res_json_def Let_def

lemmas facade_defs =
  check_login_def login_def verify_signed_headers_def verify_signature_def
  add_root_of_trust_def

lemmas http_defs =
  check_login_http_def credential_presentation_http_def verify_signed_headers_http_def
  verify_signature_http_def add_root_of_trust_http_def

lemmas endpoint_defs =
  simulated_endpoint_def unreachable_endpoint_def ok_200_def bad_400_def no_msg_200_def
  server_error_500_def
  not_json_502_def

lemma snd_respond: "snd (respond rs) = snd rs"
  by (simp add: respond_def split: sum.split)

lemma fst_respond_Inr: "fst rs = Inr res \<Longrightarrow> fst (respond rs) = make_response res"
  by (simp add: respond_def)

text \<open>The calls made to the transport: each adapter method appends exactly one.\<close>

lemma issued_check_login_request:
  "issued (snd (check_login_request e aid s)) =
     issued s @ [check_login_http (verifier_service_adapter (client s)) aid]"
  by (simp add: adapter_defs split: sum.split option.split)

lemma issued_credential_presentation_request:
  "issued (snd (credential_presentation_request e said vlei s)) =
     issued s @ [credential_presentation_http (verifier_service_adapter (client s)) said vlei]"
  by (simp add: adapter_defs split: sum.split option.split)

lemma issued_verify_signed_headers_request:
  "issued (snd (verify_signed_headers_request e aid sig ser s)) =
     issued s @ [verify_signed_headers_http (verifier_service_adapter (client s)) aid sig ser]"
  by (simp add: adapter_defs split: sum.split option.split)

lemma issued_verify_signature_request:
  "issued (snd (verify_signature_request e sg sub dg s)) =
     issued s @ [verify_signature_http (verifier_service_adapter (client s)) sg sub dg]"
  by (simp add: adapter_defs split: sum.split option.split)

lemma issued_add_root_of_trust_request:
  "issued (snd (add_root_of_trust_request e aid vlei oobi s)) =
     issued s @ [add_root_of_trust_http (verifier_service_adapter (client s)) aid vlei oobi]"
  by (simp add: adapter_defs split: sum.split option.split)

lemmas issued_request =
  issued_check_login_request issued_credential_presentation_request
  issued_verify_signed_headers_request issued_verify_signature_request
  issued_add_root_of_trust_request

text \<open>No adapter method assigns to an attribute of the client or of the adapter.\<close>

lemma client_check_login_request:
  "client (snd (check_login_request e aid s)) = client s"
  by (simp add: adapter_defs split: sum.split option.split)

lemma client_credential_presentation_request:
  "client (snd (credential_presentation_request e said vlei s)) = client s"
  by (simp add: adapter_defs split: sum.split option.split)

lemma client_verify_signed_headers_request:
  "client (snd (verify_signed_headers_request e aid sig ser s)) = client s"
  by (simp add: adapter_defs split: sum.split option.split)

lemma client_verify_signature_request:
  "client (snd (verify_signature_request e sg sub dg s)) = client s"
  by (simp add: adapter_defs split: sum.split option.split)

lemma client_add_root_of_trust_request:
  "client (snd (add_root_of_trust_request e aid vlei oobi s)) = client s"
  by (simp add: adapter_defs split: sum.split option.split)

lemmas client_request =
  client_check_login_request client_credential_presentation_request
  client_verify_signed_headers_request client_verify_signature_request
  client_add_root_of_trust_request

text \<open>
  What an adapter method returns: the transport's failure, or the raw response. The
  four methods with a post-call line raise instead when the body is not JSON.
\<close>

lemma fst_check_login_request:
  "fst (check_login_request e aid s) =
     (case send e (check_login_http (verifier_service_adapter (client s)) aid) of
        Inl err \<Rightarrow> Inl err
      | Inr res \<Rightarrow> (case content res of None \<Rightarrow> Inl JSONDecodeError | Some j \<Rightarrow> Inr res))"
  by (simp add: adapter_defs split: sum.split option.split)

lemma fst_credential_presentation_request:
  "fst (credential_presentation_request e said vlei s) =
     (case send e (credential_presentation_http (verifier_service_adapter (client s)) said vlei) of
        Inl err \<Rightarrow> Inl err
      | Inr res \<Rightarrow> (case content res of None \<Rightarrow> Inl JSONDecodeError | Some j \<Rightarrow> Inr res))"
  by (simp add: adapter_defs split: sum.split option.split)

lemma fst_verify_signed_headers_request:
  "fst (verify_signed_headers_request e aid sig ser s) =
     (case send e (verify_signed_headers_http (verifier_service_adapter (client s)) aid sig ser) of
        Inl err \<Rightarrow> Inl err
      | Inr res \<Rightarrow> (case content res of None \<Rightarrow> Inl JSONDecodeError | Some j \<Rightarrow> Inr res))"
  by (simp add: adapter_defs split: sum.split option.split)

lemma fst_verify_signature_request:
  "fst (verify_signature_request e sg sub dg s) =
     send e (verify_signature_http (verifier_service_adapter (client s)) sg sub dg)"
  by (simp add: adapter_defs split: sum.split option.split)

lemma fst_add_root_of_trust_request:
  "fst (add_root_of_trust_request e aid vlei oobi s) =
     (case send e (add_root_of_trust_http (verifier_service_adapter (client s)) aid vlei oobi) of
        Inl err \<Rightarrow> Inl err
      | Inr res \<Rightarrow> (case content res of None \<Rightarrow> Inl JSONDecodeError | Some j \<Rightarrow> Inr res))"
  by (simp add: adapter_defs split: sum.split option.split)

lemmas fst_request =
  fst_check_login_request fst_credential_presentation_request
  fst_verify_signed_headers_request fst_verify_signature_request
  fst_add_root_of_trust_request

text \<open>The normalisation step of the facade.\<close>

lemma make_response_msg:
  "content res = Some (JObject kvs) \<Longrightarrow> map_of kvs ''msg'' = Some m \<Longrightarrow>
   make_response res = Inr \<lparr> code = status_code res, body = JObject kvs, message = m \<rparr>"
  by (simp add: make_response_def res_json_def)

lemma make_response_no_msg:
  "content res = Some b \<Longrightarrow> getitem b ''msg'' = Inl err \<Longrightarrow> make_response res = Inl err"
  by (simp add: make_response_def res_json_def)

lemma getitem_no_field:
  "\<not> (\<exists>kvs m. b = JObject kvs \<and> map_of kvs ''msg'' = Some m) \<Longrightarrow>
   getitem b ''msg'' = Inl (case b of JObject kvs \<Rightarrow> KeyError ''msg'' | _ \<Rightarrow> TypeError)"
  by (cases b) (auto split: option.split)

text \<open>A facade method returns what the normalisation makes of the transport's answer.\<close>

lemma facade_result:
  "send e (check_login_http (verifier_service_adapter (client s)) aid) = Inr res \<Longrightarrow>
     content res = Some b \<Longrightarrow> fst (check_login e aid s) = make_response res"
  "send e (credential_presentation_http (verifier_service_adapter (client s)) said vlei) = Inr res \<Longrightarrow>
     content res = Some b \<Longrightarrow> fst (login e said vlei s) = make_response res"
  "send e (verify_signed_headers_http (verifier_service_adapter (client s)) aid sig ser) = Inr res \<Longrightarrow>
     content res = Some b \<Longrightarrow> fst (verify_signed_headers e aid sig ser s) = make_response res"
  "send e (verify_signature_http (verifier_service_adapter (client s)) sg sub dg) = Inr res \<Longrightarrow>
     content res = Some b \<Longrightarrow> fst (verify_signature e sg sub dg s) = make_response res"
  "send e (add_root_of_trust_http (verifier_service_adapter (client s)) aid vlei oobi) = Inr res \<Longrightarrow>
     content res = Some b \<Longrightarrow> fst (add_root_of_trust e aid vlei oobi s) = make_response res"
  by (simp_all add: facade_defs fst_respond_Inr fst_request)

text \<open>The URLs a constructed client holds, in terms of its base URL.\<close>

lemma init_base_url:
  "verifier_base_url (VerifierClient_init arg)
     = (case arg of None \<Rightarrow> ''http://localhost:7676'' | Some u \<Rightarrow> u)"
  "adapter_base_url (verifier_service_adapter (VerifierClient_init arg))
     = verifier_base_url (VerifierClient_init arg)"
  by (simp_all add: VerifierClient_init_def VerifierServiceAdapter_init_def default_base_url_def
        Let_def split: option.split)

lemma init_urls:
  "auths_url (verifier_service_adapter (VerifierClient_init arg))
     = verifier_base_url (VerifierClient_init arg) @ ''/authorizations/''"
  "presentations_url (verifier_service_adapter (VerifierClient_init arg))
     = verifier_base_url (VerifierClient_init arg) @ ''/presentations/''"
  "reports_url (verifier_service_adapter (VerifierClient_init arg))
     = verifier_base_url (VerifierClient_init arg) @ ''/reports/''"
  "verify_signed_headers_url (verifier_service_adapter (VerifierClient_init arg))
     = verifier_base_url (VerifierClient_init arg) @ ''/request/verify/''"
  "verify_signature_url (verifier_service_adapter (VerifierClient_init arg))
     = verifier_base_url (VerifierClient_init arg) @ ''/signature/verify/''"
  "add_rot_url (verifier_service_adapter (VerifierClient_init arg))
     = verifier_base_url (VerifierClient_init arg) @ ''/root_of_trust/''"
  by (simp_all add: VerifierClient_init_def VerifierServiceAdapter_init_def Let_def)

text \<open>The last path segment of a URL holds neither a slash nor a question mark.\<close>

lemma set_last_segment: "set (last_segment p) \<subseteq> set p"
  by (auto simp: last_segment_def dest: set_takeWhileD)

lemma last_segment_url_path_chars:
  "CHR ''/'' \<notin> set (last_segment (url_path u))"
  "CHR ''?'' \<notin> set (last_segment (url_path u))"
proof -
  show "CHR ''/'' \<notin> set (last_segment (url_path u))"
    by (auto simp: last_segment_def dest: set_takeWhileD)
  have "CHR ''?'' \<notin> set (url_path u)"
    by (auto simp: url_path_def dest: set_takeWhileD)
  with set_last_segment [of "url_path u"] show "CHR ''?'' \<notin> set (last_segment (url_path u))"
    by blast
qed

lemma last_segment_differs:
  "CHR ''/'' \<in> set ident \<or> CHR ''?'' \<in> set ident \<Longrightarrow> last_segment (url_path u) \<noteq> ident"
  using last_segment_url_path_chars [of u] by auto

text \<open>The facade adds nothing to the state the adapter leaves.\<close>

lemma facade_issued:
  "issued (snd (check_login e aid s))
     = issued s @ [check_login_http (verifier_service_adapter (client s)) aid]"
  "issued (snd (login e said vlei s))
     = issued s @ [credential_presentation_http (verifier_service_adapter (client s)) said vlei]"
  "issued (snd (verify_signed_headers e aid sig ser s))
     = issued s @ [verify_signed_headers_http (verifier_service_adapter (client s)) aid sig ser]"
  "issued (snd (verify_signature e sg sub dg s))
     = issued s @ [verify_signature_http (verifier_service_adapter (client s)) sg sub dg]"
  "issued (snd (add_root_of_trust e aid vlei oobi s))
     = issued s @ [add_root_of_trust_http (verifier_service_adapter (client s)) aid vlei oobi]"
  by (simp_all add: facade_defs snd_respond issued_request)

lemma facade_client:
  "client (snd (check_login e aid s)) = client s"
  "client (snd (login e said vlei s)) = client s"
  "client (snd (verify_signed_headers e aid sig ser s)) = client s"
  "client (snd (verify_signature e sg sub dg s)) = client s"
  "client (snd (add_root_of_trust e aid vlei oobi s)) = client s"
  by (simp_all add: facade_defs snd_respond client_request)

lemma http_url:
  "url (check_login_http a aid) = auths_url a @ aid"
  "url (credential_presentation_http a said vlei) = presentations_url a @ said"
  "url (verify_signed_headers_http a aid sig ser) = verify_signed_headers_url a @ aid"
  "url (verify_signature_http a sg sub dg) = verify_signature_url a"
  "url (add_root_of_trust_http a aid vlei oobi) = add_rot_url a @ aid"
  by (simp_all add: http_defs)

text \<open>The adapter methods with a post-call line, on a JSON body and on any other body.\<close>

lemma check_login_request_json:
  "send e (check_login_http (verifier_service_adapter (client s)) aid) = Inr res \<Longrightarrow>
   content res = Some j \<Longrightarrow>
   check_login_request e aid s =
     (Inr res,
      s\<lparr> logged := logged s @ [''Check login request sent with: aid = '' @ aid,
                                ''login status: '' @ dumps e j],
         issued := issued s @ [check_login_http (verifier_service_adapter (client s)) aid] \<rparr>)"
  by (simp add: adapter_defs)

lemma check_login_request_not_json:
  "send e (check_login_http (verifier_service_adapter (client s)) aid) = Inr res \<Longrightarrow>
   content res = None \<Longrightarrow>
   check_login_request e aid s =
     (Inl JSONDecodeError,
      s\<lparr> logged := logged s @ [''Check login request sent with: aid = '' @ aid],
         issued := issued s @ [check_login_http (verifier_service_adapter (client s)) aid] \<rparr>)"
  by (simp add: adapter_defs)

lemma credential_presentation_request_json:
  "send e (credential_presentation_http (verifier_service_adapter (client s)) said vlei) = Inr res \<Longrightarrow>
   content res = Some j \<Longrightarrow>
   credential_presentation_request e said vlei s =
     (Inr res,
      s\<lparr> logged := logged s @ [''Credential presentation request sent with: said = '' @ said,
                                ''Credential presentation response for said = '' @ said @ '':  ''
                                  @ dumps e j],
         issued := issued s
                     @ [credential_presentation_http (verifier_service_adapter (client s)) said vlei] \<rparr>)"
  by (simp add: adapter_defs)

lemma credential_presentation_request_not_json:
  "send e (credential_presentation_http (verifier_service_adapter (client s)) said vlei) = Inr res \<Longrightarrow>
   content res = None \<Longrightarrow>
   credential_presentation_request e said vlei s =
     (Inl JSONDecodeError,
      s\<lparr> logged := logged s @ [''Credential presentation request sent with: said = '' @ said],
         issued := issued s
                     @ [credential_presentation_http (verifier_service_adapter (client s)) said vlei] \<rparr>)"
  by (simp add: adapter_defs)

lemma verify_signed_headers_request_json:
  "send e (verify_signed_headers_http (verifier_service_adapter (client s)) aid sig ser) = Inr res \<Longrightarrow>
   content res = Some j \<Longrightarrow>
   verify_signed_headers_request e aid sig ser s =
     (Inr res,
      s\<lparr> logged := logged s @ [''Signed headers verification request sent with aid = '' @ aid
                                  @ '', sig = '' @ sig @ '', ser = '' @ ser,
                                ''Signed headers verification response for aid = '' @ aid
                                  @ '', sig = '' @ sig @ '', ser = '' @ ser @ '':  '' @ dumps e j],
         issued := issued s
                     @ [verify_signed_headers_http (verifier_service_adapter (client s)) aid sig ser] \<rparr>)"
  by (simp add: adapter_defs)

lemma verify_signed_headers_request_not_json:
  "send e (verify_signed_headers_http (verifier_service_adapter (client s)) aid sig ser) = Inr res \<Longrightarrow>
   content res = None \<Longrightarrow>
   verify_signed_headers_request e aid sig ser s =
     (Inl JSONDecodeError,
      s\<lparr> logged := logged s @ [''Signed headers verification request sent with aid = '' @ aid
                                  @ '', sig = '' @ sig @ '', ser = '' @ ser],
         issued := issued s
                     @ [verify_signed_headers_http (verifier_service_adapter (client s)) aid sig ser] \<rparr>)"
  by (simp add: adapter_defs)

lemma add_root_of_trust_request_json:
  "send e (add_root_of_trust_http (verifier_service_adapter (client s)) aid vlei oobi) = Inr res \<Longrightarrow>
   content res = Some j \<Longrightarrow>
   add_root_of_trust_request e aid vlei oobi s =
     (Inr res,
      s\<lparr> logged := logged s @ [''Add root of trust request send with: aid = '' @ aid
                                  @ '', vlei = '' @ vlei @ '', oobi = '' @ oobi,
                                ''Add root of trust response for aid = '' @ aid
                                  @ '', vlei = '' @ vlei @ '', oobi = '' @ oobi @ '':  '' @ dumps e j],
         issued := issued s
                     @ [add_root_of_trust_http (verifier_service_adapter (client s)) aid vlei oobi] \<rparr>)"
  by (simp add: adapter_defs)

lemma add_root_of_trust_request_not_json:
  "send e (add_root_of_trust_http (verifier_service_adapter (client s)) aid vlei oobi) = Inr res \<Longrightarrow>
   content res = None \<Longrightarrow>
   add_root_of_trust_request e aid vlei oobi s =
     (Inl JSONDecodeError,
      s\<lparr> logged := logged s @ [''Add root of trust request send with: aid = '' @ aid
                                  @ '', vlei = '' @ vlei @ '', oobi = '' @ oobi],
         issued := issued s
                     @ [add_root_of_trust_http (verifier_service_adapter (client s)) aid vlei oobi] \<rparr>)"
  by (simp add: adapter_defs)

text \<open>The adapter method without a post-call line.\<close>

lemma verify_signature_request_state:
  "snd (verify_signature_request e sg sub dg s) =
     s\<lparr> logged := logged s @ [''Signature verification request sent with signature = '' @ sg
                                @ '', submitter = '' @ sub @ '', digest = '' @ dg],
        issued := issued s @ [verify_signature_http (verifier_service_adapter (client s)) sg sub dg] \<rparr>"
  by (simp add: adapter_defs split: sum.split)

lemma verify_signature_request_pre_line:
  "take (Suc (length (logged s))) (logged (snd (verify_signature_request e sg sub dg s)))
     = logged s @ [''Signature verification request sent with signature = '' @ sg
                     @ '', submitter = '' @ sub @ '', digest = '' @ dg]"
  by (simp add: verify_signature_request_state)

text \<open>Whatever an adapter method returns is the response the transport gave.\<close>

lemma request_returns_raw:
  "fst (check_login_request e aid s) = Inr r \<Longrightarrow>
     send e (check_login_http (verifier_service_adapter (client s)) aid) = Inr r"
  "fst (credential_presentation_request e said vlei s) = Inr r \<Longrightarrow>
     send e (credential_presentation_http (verifier_service_adapter (client s)) said vlei) = Inr r"
  "fst (verify_signed_headers_request e aid sig ser s) = Inr r \<Longrightarrow>
     send e (verify_signed_headers_http (verifier_service_adapter (client s)) aid sig ser) = Inr r"
  "fst (verify_signature_request e sg sub dg s) = Inr r \<Longrightarrow>
     send e (verify_signature_http (verifier_service_adapter (client s)) sg sub dg) = Inr r"
  "fst (add_root_of_trust_request e aid vlei oobi s) = Inr r \<Longrightarrow>
     send e (add_root_of_trust_http (verifier_service_adapter (client s)) aid vlei oobi) = Inr r"
  by (simp_all add: fst_request split: sum.splits option.splits)

section \<open>Normalisation of responses\<close>

text \<open>
  C1. For each of the five facade operations: if the HTTP call returns a response with
  status code \<open>s\<close> and a JSON body \<open>b\<close> that is an object holding a \<open>msg\<close> field,
  the operation returns the three-field result whose \<open>code\<close> is \<open>s\<close>, whose \<open>body\<close>
  is \<open>b\<close> and whose \<open>message\<close> is the value of \<open>msg\<close> in \<open>b\<close>.
\<close>

theorem facade_normalized_result:
  assumes "content res = Some (JObject kvs)" and "map_of kvs ''msg'' = Some m"
  shows
    "(send e (check_login_http (verifier_service_adapter (client s)) aid1) = Inr res \<longrightarrow>
        fst (check_login e aid1 s)
          = Inr \<lparr> code = status_code res, body = JObject kvs, message = m \<rparr>) \<and>
     (send e (credential_presentation_http (verifier_service_adapter (client s)) said vlei) = Inr res \<longrightarrow>
        fst (login e said vlei s)
          = Inr \<lparr> code = status_code res, body = JObject kvs, message = m \<rparr>) \<and>
     (send e (verify_signed_headers_http (verifier_service_adapter (client s)) aid2 sig ser) = Inr res \<longrightarrow>
        fst (verify_signed_headers e aid2 sig ser s)
          = Inr \<lparr> code = status_code res, body = JObject kvs, message = m \<rparr>) \<and>
     (send e (verify_signature_http (verifier_service_adapter (client s)) sg sub dg) = Inr res \<longrightarrow>
        fst (verify_signature e sg sub dg s)
          = Inr \<lparr> code = status_code res, body = JObject kvs, message = m \<rparr>) \<and>
     (send e (add_root_of_trust_http (verifier_service_adapter (client s)) aid3 vlei3 oobi) = Inr res \<longrightarrow>
        fst (add_root_of_trust e aid3 vlei3 oobi s)
          = Inr \<lparr> code = status_code res, body = JObject kvs, message = m \<rparr>)"
  using assms by (simp add: facade_result make_response_msg)

theorem facade_normalized_result_witness:
  "content ok_200 = Some (JObject [(''msg'', JStr ''ok''), (''aid'', JStr ''EAbc123'')]) \<and>
   map_of [(''msg'', JStr ''ok''), (''aid'', JStr ''EAbc123'')] ''msg'' = Some (JStr ''ok'') \<and>
   fst (check_login (simulated_endpoint ok_200) ''EAbc123'' (new_client None))
     = Inr \<lparr> code = 200, body = JObject [(''msg'', JStr ''ok''), (''aid'', JStr ''EAbc123'')],
             message = JStr ''ok'' \<rparr> \<and>
   fst (login (simulated_endpoint ok_200) ''ESaid'' ''vlei-data'' (new_client None))
     = Inr \<lparr> code = 200, body = JObject [(''msg'', JStr ''ok''), (''aid'', JStr ''EAbc123'')],
             message = JStr ''ok'' \<rparr> \<and>
   fst (verify_signed_headers (simulated_endpoint ok_200) ''EAid'' ''sig1'' ''ser1'' (new_client None))
     = Inr \<lparr> code = 200, body = JObject [(''msg'', JStr ''ok''), (''aid'', JStr ''EAbc123'')],
             message = JStr ''ok'' \<rparr> \<and>
   fst (verify_signature (simulated_endpoint ok_200) ''sig1'' ''EAid'' ''deadbeef'' (new_client None))
     = Inr \<lparr> code = 200, body = JObject [(''msg'', JStr ''ok''), (''aid'', JStr ''EAbc123'')],
             message = JStr ''ok'' \<rparr> \<and>
   fst (add_root_of_trust (simulated_endpoint ok_200) ''EAid'' ''vlei-data'' ''http://oobi'' (new_client None))
     = Inr \<lparr> code = 200, body = JObject [(''msg'', JStr ''ok''), (''aid'', JStr ''EAbc123'')],
             message = JStr ''ok'' \<rparr>"
proof -
  have c: "content ok_200 = Some (JObject [(''msg'', JStr ''ok''), (''aid'', JStr ''EAbc123'')])"
    by (simp add: ok_200_def)
  have m: "map_of [(''msg'', JStr ''ok''), (''aid'', JStr ''EAbc123'')] ''msg'' = Some (JStr ''ok'')"
    by simp
  have s: "status_code ok_200 = 200" "\<And>req. send (simulated_endpoint ok_200) req = Inr ok_200"
    by (simp_all add: ok_200_def simulated_endpoint_def)
  show ?thesis
    using c m
      facade_normalized_result [OF c m, where e = "simulated_endpoint ok_200"
        and s = "new_client None" and ?aid1.0 = "''EAbc123''" and said = "''ESaid''"
        and vlei = "''vlei-data''" and ?aid2.0 = "''EAid''" and sig = "''sig1''" and ser = "''ser1''"
        and sg = "''sig1''" and sub = "''EAid''" and dg = "''deadbeef''" and ?aid3.0 = "''EAid''"
        and ?vlei3.0 = "''vlei-data''" and oobi = "''http://oobi''"]
    by (simp add: s)
qed

text \<open>
  C2. A status outside 2xx is data, not a failure. Whatever status outside 200..299
  the remote answers with, if the body is a JSON object holding \<open>msg\<close>, each of the
  five facade operations returns normally, with that status as \<open>code\<close>, the body as
  \<open>body\<close> and the value of \<open>msg\<close> as \<open>message\<close>. In particular an answer 400 with
  the body \<open>{"msg": "bad"}\<close> comes back with \<open>code\<close> 400 and \<open>message\<close> \<open>"bad"\<close>.
\<close>

theorem facade_passes_non_2xx_through:
  assumes "st < 200 \<or> 300 \<le> st"
    and "status_code res = st"
    and "content res = Some (JObject kvs)"
    and "map_of kvs ''msg'' = Some m"
  shows
    "(send e (check_login_http (verifier_service_adapter (client s)) aid1) = Inr res \<longrightarrow>
        fst (check_login e aid1 s) = Inr \<lparr> code = st, body = JObject kvs, message = m \<rparr>) \<and>
     (send e (credential_presentation_http (verifier_service_adapter (client s)) said vlei) = Inr res \<longrightarrow>
        fst (login e said vlei s) = Inr \<lparr> code = st, body = JObject kvs, message = m \<rparr>) \<and>
     (send e (verify_signed_headers_http (verifier_service_adapter (client s)) aid2 sig ser) = Inr res \<longrightarrow>
        fst (verify_signed_headers e aid2 sig ser s)
          = Inr \<lparr> code = st, body = JObject kvs, message = m \<rparr>) \<and>
     (send e (verify_signature_http (verifier_service_adapter (client s)) sg sub dg) = Inr res \<longrightarrow>
        fst (verify_signature e sg sub dg s) = Inr \<lparr> code = st, body = JObject kvs, message = m \<rparr>) \<and>
     (send e (add_root_of_trust_http (verifier_service_adapter (client s)) aid3 vlei3 oobi) = Inr res \<longrightarrow>
        fst (add_root_of_trust e aid3 vlei3 oobi s)
          = Inr \<lparr> code = st, body = JObject kvs, message = m \<rparr>)"
proof -
  have "make_response res = Inr \<lparr> code = st, body = JObject kvs, message = m \<rparr>"
    using make_response_msg [OF assms(3) assms(4)] assms(2) by simp
  with assms(3) show ?thesis
    by (simp add: facade_result)
qed

theorem facade_passes_non_2xx_through_witness:
  "((400::int) < 200 \<or> 300 \<le> (400::int)) \<and>
   status_code bad_400 = 400 \<and>
   content bad_400 = Some (JObject [(''msg'', JStr ''bad'')]) \<and>
   map_of [(''msg'', JStr ''bad'')] ''msg'' = Some (JStr ''bad'') \<and>
   fst (check_login (simulated_endpoint bad_400) ''EAbc123'' (new_client None))
     = Inr \<lparr> code = 400, body = JObject [(''msg'', JStr ''bad'')], message = JStr ''bad'' \<rparr> \<and>
   fst (login (simulated_endpoint bad_400) ''ESaid'' ''vlei-data'' (new_client None))
     = Inr \<lparr> code = 400, body = JObject [(''msg'', JStr ''bad'')], message = JStr ''bad'' \<rparr> \<and>
   fst (verify_signed_headers (simulated_endpoint bad_400) ''EAid'' ''sig1'' ''ser1'' (new_client None))
     = Inr \<lparr> code = 400, body = JObject [(''msg'', JStr ''bad'')], message = JStr ''bad'' \<rparr> \<and>
   fst (verify_signature (simulated_endpoint bad_400) ''sig1'' ''EAid'' ''deadbeef'' (new_client None))
     = Inr \<lparr> code = 400, body = JObject [(''msg'', JStr ''bad'')], message = JStr ''bad'' \<rparr> \<and>
   fst (add_root_of_trust (simulated_endpoint bad_400) ''EAid'' ''vlei-data'' ''http://oobi'' (new_client None))
     = Inr \<lparr> code = 400, body = JObject [(''msg'', JStr ''bad'')], message = JStr ''bad'' \<rparr> \<and>
   fst (check_login (simulated_endpoint server_error_500) ''EAbc123'' (new_client None))
     = Inr \<lparr> code = 500, body = JObject [(''msg'', JStr ''internal error'')],
             message = JStr ''internal error'' \<rparr>"
proof -
  have a: "(400::int) < 200 \<or> 300 \<le> (400::int)" and a': "(500::int) < 200 \<or> 300 \<le> (500::int)"
    by simp_all
  have c: "status_code bad_400 = 400" "content bad_400 = Some (JObject [(''msg'', JStr ''bad'')])"
    by (simp_all add: bad_400_def)
  have m: "map_of [(''msg'', JStr ''bad'')] ''msg'' = Some (JStr ''bad'')"
    by simp
  have c': "status_code server_error_500 = 500"
           "content server_error_500 = Some (JObject [(''msg'', JStr ''internal error'')])"
    by (simp_all add: server_error_500_def)
  have m': "map_of [(''msg'', JStr ''internal error'')] ''msg'' = Some (JStr ''internal error'')"
    by simp
  have s: "\<And>r req. send (simulated_endpoint r) req = Inr r"
    by (simp add: simulated_endpoint_def)
  show ?thesis
    using a c m
      facade_passes_non_2xx_through [OF a c m, where e = "simulated_endpoint bad_400"
        and s = "new_client None" and ?aid1.0 = "''EAbc123''" and said = "''ESaid''"
        and vlei = "''vlei-data''" and ?aid2.0 = "''EAid''" and sig = "''sig1''" and ser = "''ser1''"
        and sg = "''sig1''" and sub = "''EAid''" and dg = "''deadbeef''" and ?aid3.0 = "''EAid''"
        and ?vlei3.0 = "''vlei-data''" and oobi = "''http://oobi''"]
      facade_passes_non_2xx_through [OF a' c' m', where e = "simulated_endpoint server_error_500"
        and s = "new_client None" and ?aid1.0 = "''EAbc123''"]
    by (simp add: s)
qed

text \<open>
  C3. If the response body is valid JSON but holds no \<open>msg\<close> field, each of the five
  facade operations, \<open>verify_signature\<close> included, fails: the subscription raises
  (\<^verbatim>\<open>KeyError\<close> on an object without the key, \<^verbatim>\<open>TypeError\<close> on any other document)
  and the exception reaches the caller; no result with a made-up message is returned.
\<close>

theorem facade_fails_without_msg:
  assumes "content res = Some b"
    and "\<not> (\<exists>kvs m. b = JObject kvs \<and> map_of kvs ''msg'' = Some m)"
  shows
    "(send e (check_login_http (verifier_service_adapter (client s)) aid1) = Inr res \<longrightarrow>
        fst (check_login e aid1 s)
          = Inl (case b of JObject kvs \<Rightarrow> KeyError ''msg'' | _ \<Rightarrow> TypeError)) \<and>
     (send e (credential_presentation_http (verifier_service_adapter (client s)) said vlei) = Inr res \<longrightarrow>
        fst (login e said vlei s)
          = Inl (case b of JObject kvs \<Rightarrow> KeyError ''msg'' | _ \<Rightarrow> TypeError)) \<and>
     (send e (verify_signed_headers_http (verifier_service_adapter (client s)) aid2 sig ser) = Inr res \<longrightarrow>
        fst (verify_signed_headers e aid2 sig ser s)
          = Inl (case b of JObject kvs \<Rightarrow> KeyError ''msg'' | _ \<Rightarrow> TypeError)) \<and>
     (send e (verify_signature_http (verifier_service_adapter (client s)) sg sub dg) = Inr res \<longrightarrow>
        fst (verify_signature e sg sub dg s)
          = Inl (case b of JObject kvs \<Rightarrow> KeyError ''msg'' | _ \<Rightarrow> TypeError)) \<and>
     (send e (add_root_of_trust_http (verifier_service_adapter (client s)) aid3 vlei3 oobi) = Inr res \<longrightarrow>
        fst (add_root_of_trust e aid3 vlei3 oobi s)
          = Inl (case b of JObject kvs \<Rightarrow> KeyError ''msg'' | _ \<Rightarrow> TypeError))"
proof -
  have "make_response res = Inl (case b of JObject kvs \<Rightarrow> KeyError ''msg'' | _ \<Rightarrow> TypeError)"
    using assms by (simp add: make_response_no_msg getitem_no_field)
  with assms(1) show ?thesis
    by (simp add: facade_result)
qed

theorem facade_fails_without_msg_witness:
  "content no_msg_200 = Some (JObject [(''status'', JStr ''ok'')]) \<and>
   \<not> (\<exists>kvs m. JObject [(''status'', JStr ''ok'')] = JObject kvs \<and> map_of kvs ''msg'' = Some m) \<and>
   fst (check_login (simulated_endpoint no_msg_200) ''EAbc123'' (new_client None))
     = Inl (KeyError ''msg'') \<and>
   fst (login (simulated_endpoint no_msg_200) ''ESaid'' ''vlei-data'' (new_client None))
     = Inl (KeyError ''msg'') \<and>
   fst (verify_signed_headers (simulated_endpoint no_msg_200) ''EAid'' ''sig1'' ''ser1'' (new_client None))
     = Inl (KeyError ''msg'') \<and>
   fst (verify_signature (simulated_endpoint no_msg_200) ''sig1'' ''EAid'' ''deadbeef'' (new_client None))
     = Inl (KeyError ''msg'') \<and>
   fst (add_root_of_trust (simulated_endpoint no_msg_200) ''EAid'' ''vlei-data'' ''http://oobi''
          (new_client None))
     = Inl (KeyError ''msg'')"
proof -
  have c: "content no_msg_200 = Some (JObject [(''status'', JStr ''ok'')])"
    by (simp add: no_msg_200_def)
  have n: "\<not> (\<exists>kvs m. JObject [(''status'', JStr ''ok'')] = JObject kvs \<and> map_of kvs ''msg'' = Some m)"
    by simp
  have s: "\<And>req. send (simulated_endpoint no_msg_200) req = Inr no_msg_200"
    by (simp add: simulated_endpoint_def)
  show ?thesis
    using c n
      facade_fails_without_msg [OF c n, where e = "simulated_endpoint no_msg_200"
        and s = "new_client None" and ?aid1.0 = "''EAbc123''" and said = "''ESaid''"
        and vlei = "''vlei-data''" and ?aid2.0 = "''EAid''" and sig = "''sig1''" and ser = "''ser1''"
        and sg = "''sig1''" and sub = "''EAid''" and dg = "''deadbeef''" and ?aid3.0 = "''EAid''"
        and ?vlei3.0 = "''vlei-data''" and oobi = "''http://oobi''"]
    by (simp add: s)
qed

section \<open>The requests that are issued\<close>

text \<open>
  C4. For every \<open>aid\<close>, \<open>check_login aid\<close> makes exactly one call of the transport:
  a GET whose URL is the configured base URL, then \<open>/authorizations/\<close>, then \<open>aid\<close>.
\<close>

theorem check_login_issues_one_get:
  assumes "client s = VerifierClient_init arg"
  shows
    "issued (snd (check_login e aid s))
       = issued s @ [check_login_http (verifier_service_adapter (client s)) aid] \<and>
     http_verb (check_login_http (verifier_service_adapter (client s)) aid) = GET \<and>
     url (check_login_http (verifier_service_adapter (client s)) aid)
       = verifier_base_url (client s) @ ''/authorizations/'' @ aid"
  using assms
  by (simp add: check_login_def snd_respond issued_check_login_request check_login_http_def
        init_urls)

theorem check_login_issues_one_get_witness:
  "client (new_client (Some ''http://verifier:7676'')) = VerifierClient_init (Some ''http://verifier:7676'') \<and>
   map (\<lambda>r. (http_verb r, url r))
     (issued (snd (check_login unreachable_endpoint ''EAbc123'' (new_client (Some ''http://verifier:7676'')))))
     = [(GET, ''http://verifier:7676/authorizations/EAbc123'')]"
proof -
  have c: "client (new_client (Some ''http://verifier:7676''))
             = VerifierClient_init (Some ''http://verifier:7676'')"
    by (simp add: new_client_def)
  have b: "verifier_base_url (VerifierClient_init (Some ''http://verifier:7676'')) = ''http://verifier:7676''"
          "issued (new_client (Some ''http://verifier:7676'')) = []"
    by (simp_all add: init_base_url new_client_def)
  show ?thesis
    using check_login_issues_one_get [OF c, of unreachable_endpoint "''EAbc123''"]
    by (simp add: c b)
qed

text \<open>
  C5. For all arguments, \<open>verify_signature signature signer_aid non_prefixed_digest\<close>
  makes exactly one call of the transport: a POST to the base URL followed by
  \<open>/signature/verify/\<close>, whose JSON body is the object with exactly the three keys
  \<open>signature\<close>, \<open>signer_aid\<close> and \<open>non_prefixed_digest\<close> bound to the three arguments.
\<close>

theorem verify_signature_issues_one_post:
  assumes "client s = VerifierClient_init arg"
  shows
    "issued (snd (verify_signature e signature signer_aid non_prefixed_digest s))
       = issued s @ [verify_signature_http (verifier_service_adapter (client s))
                       signature signer_aid non_prefixed_digest] \<and>
     http_verb (verify_signature_http (verifier_service_adapter (client s))
                  signature signer_aid non_prefixed_digest) = POST \<and>
     url (verify_signature_http (verifier_service_adapter (client s))
            signature signer_aid non_prefixed_digest)
       = verifier_base_url (client s) @ ''/signature/verify/'' \<and>
     json_payload (verify_signature_http (verifier_service_adapter (client s))
                     signature signer_aid non_prefixed_digest)
       = Some (JObject [(''signature'', JStr signature), (''signer_aid'', JStr signer_aid),
                        (''non_prefixed_digest'', JStr non_prefixed_digest)]) \<and>
     data (verify_signature_http (verifier_service_adapter (client s))
             signature signer_aid non_prefixed_digest) = None"
  using assms
  by (simp add: verify_signature_def snd_respond issued_verify_signature_request
        verify_signature_http_def init_urls)

theorem verify_signature_issues_one_post_witness:
  "client (new_client None) = VerifierClient_init None \<and>
   map (\<lambda>r. (http_verb r, url r, json_payload r, data r))
     (issued (snd (verify_signature unreachable_endpoint ''sig1'' ''EAid'' ''deadbeef'' (new_client None))))
     = [(POST, ''http://localhost:7676/signature/verify/'',
         Some (JObject [(''signature'', JStr ''sig1''), (''signer_aid'', JStr ''EAid''),
                        (''non_prefixed_digest'', JStr ''deadbeef'')]), None)]"
proof -
  have c: "client (new_client None) = VerifierClient_init None"
    by (simp add: new_client_def)
  have b: "verifier_base_url (VerifierClient_init None) = ''http://localhost:7676''"
          "issued (new_client None) = []"
    by (simp_all add: init_base_url new_client_def)
  show ?thesis
    using verify_signature_issues_one_post [OF c, of unreachable_endpoint "''sig1''" "''EAid''" "''deadbeef''"]
    by (simp add: c b)
qed

text \<open>
  C6. For all arguments, \<open>add_root_of_trust aid vlei oobi\<close> makes exactly one call of
  the transport: a POST to the base URL followed by \<open>/root_of_trust/\<close> and \<open>aid\<close>,
  whose JSON body is the object with exactly the two keys \<open>vlei\<close> and \<open>oobi\<close> bound to
  the two arguments.
\<close>

theorem add_root_of_trust_issues_one_post:
  assumes "client s = VerifierClient_init arg"
  shows
    "issued (snd (add_root_of_trust e aid vlei oobi s))
       = issued s @ [add_root_of_trust_http (verifier_service_adapter (client s)) aid vlei oobi] \<and>
     http_verb (add_root_of_trust_http (verifier_service_adapter (client s)) aid vlei oobi) = POST \<and>
     url (add_root_of_trust_http (verifier_service_adapter (client s)) aid vlei oobi)
       = verifier_base_url (client s) @ ''/root_of_trust/'' @ aid \<and>
     json_payload (add_root_of_trust_http (verifier_service_adapter (client s)) aid vlei oobi)
       = Some (JObject [(''vlei'', JStr vlei), (''oobi'', JStr oobi)]) \<and>
     data (add_root_of_trust_http (verifier_service_adapter (client s)) aid vlei oobi) = None"
  using assms
  by (simp add: add_root_of_trust_def snd_respond issued_add_root_of_trust_request
        add_root_of_trust_http_def init_urls)

theorem add_root_of_trust_issues_one_post_witness:
  "client (new_client None) = VerifierClient_init None \<and>
   map (\<lambda>r. (http_verb r, url r, json_payload r, data r))
     (issued (snd (add_root_of_trust unreachable_endpoint ''EAid'' ''vlei-data'' ''http://oobi''
                     (new_client None))))
     = [(POST, ''http://localhost:7676/root_of_trust/EAid'',
         Some (JObject [(''vlei'', JStr ''vlei-data''), (''oobi'', JStr ''http://oobi'')]), None)]"
proof -
  have c: "client (new_client None) = VerifierClient_init None"
    by (simp add: new_client_def)
  have b: "verifier_base_url (VerifierClient_init None) = ''http://localhost:7676''"
          "issued (new_client None) = []"
    by (simp_all add: init_base_url new_client_def)
  show ?thesis
    using add_root_of_trust_issues_one_post [OF c, of unreachable_endpoint "''EAid''" "''vlei-data''"
            "''http://oobi''"]
    by (simp add: c b)
qed

text \<open>
  C9. For every \<open>aid\<close>, the one request \<open>check_login\<close> issues is a GET that carries the
  header \<open>Content-Type: application/json\<close> and nothing else: no query parameters, no
  \<open>data\<close> and no \<open>json\<close> body.
\<close>

theorem check_login_content_type_without_body:
  "issued (snd (check_login e aid s))
     = issued s @ [check_login_http (verifier_service_adapter (client s)) aid] \<and>
   http_verb (check_login_http a aid) = GET \<and>
   headers (check_login_http a aid) = [(''Content-Type'', ''application/json'')] \<and>
   params (check_login_http a aid) = [] \<and>
   data (check_login_http a aid) = None \<and>
   json_payload (check_login_http a aid) = None"
  by (simp add: check_login_def snd_respond issued_check_login_request check_login_http_def)

section \<open>The base URL\<close>

text \<open>
  C8. The base URL is \<open>http://localhost:7676\<close> when the constructor gets none and the
  given one otherwise; no operation changes the client object, so the base URL and the
  URLs cached beside it stay what the constructor made them; and the URL of the request
  each operation issues is that base URL followed by the operation's fixed path (and
  the identifier, where the operation has one).
\<close>

theorem base_url_default_fixed_and_shared:
  assumes "client s = VerifierClient_init arg"
  shows
    "verifier_base_url (VerifierClient_init None) = ''http://localhost:7676'' \<and>
     adapter_base_url (VerifierServiceAdapter_init None) = ''http://localhost:7676'' \<and>
     verifier_base_url (VerifierClient_init (Some u)) = u \<and>
     adapter_base_url (verifier_service_adapter (client s)) = verifier_base_url (client s) \<and>
     client (snd (check_login e aid1 s)) = client s \<and>
     client (snd (login e said vlei s)) = client s \<and>
     client (snd (verify_signed_headers e aid2 sig ser s)) = client s \<and>
     client (snd (verify_signature e sg sub dg s)) = client s \<and>
     client (snd (add_root_of_trust e aid3 vlei3 oobi s)) = client s \<and>
     map url (issued (snd (check_login e aid1 s)))
       = map url (issued s) @ [verifier_base_url (client s) @ ''/authorizations/'' @ aid1] \<and>
     map url (issued (snd (login e said vlei s)))
       = map url (issued s) @ [verifier_base_url (client s) @ ''/presentations/'' @ said] \<and>
     map url (issued (snd (verify_signed_headers e aid2 sig ser s)))
       = map url (issued s) @ [verifier_base_url (client s) @ ''/request/verify/'' @ aid2] \<and>
     map url (issued (snd (verify_signature e sg sub dg s)))
       = map url (issued s) @ [verifier_base_url (client s) @ ''/signature/verify/''] \<and>
     map url (issued (snd (add_root_of_trust e aid3 vlei3 oobi s)))
       = map url (issued s) @ [verifier_base_url (client s) @ ''/root_of_trust/'' @ aid3]"
proof -
  have "adapter_base_url (VerifierServiceAdapter_init None) = ''http://localhost:7676''"
    by (simp add: VerifierServiceAdapter_init_def default_base_url_def)
  then show ?thesis
    using assms
    by (simp add: init_base_url init_urls facade_client facade_issued http_url)
qed

theorem base_url_default_fixed_and_shared_witness:
  "client (new_client None) = VerifierClient_init None \<and>
   verifier_base_url (client (new_client None)) = ''http://localhost:7676'' \<and>
   client (snd (check_login (simulated_endpoint ok_200) ''EAbc123'' (new_client None)))
     = client (new_client None) \<and>
   map url (issued (snd (check_login (simulated_endpoint ok_200) ''EAbc123'' (new_client None))))
     = [''http://localhost:7676/authorizations/EAbc123''] \<and>
   map url (issued (snd (login (simulated_endpoint ok_200) ''ESaid'' ''vlei-data'' (new_client None))))
     = [''http://localhost:7676/presentations/ESaid''] \<and>
   map url (issued (snd (verify_signed_headers (simulated_endpoint ok_200) ''EAid'' ''sig1'' ''ser1''
                           (new_client None))))
     = [''http://localhost:7676/request/verify/EAid''] \<and>
   map url (issued (snd (verify_signature (simulated_endpoint ok_200) ''sig1'' ''EAid'' ''deadbeef''
                           (new_client None))))
     = [''http://localhost:7676/signature/verify/''] \<and>
   map url (issued (snd (add_root_of_trust (simulated_endpoint ok_200) ''EAid'' ''vlei-data''
                           ''http://oobi'' (new_client None))))
     = [''http://localhost:7676/root_of_trust/EAid'']"
proof -
  have c: "client (new_client None) = VerifierClient_init None"
    by (simp add: new_client_def)
  have b: "verifier_base_url (VerifierClient_init None) = ''http://localhost:7676''"
          "issued (new_client None) = []"
    by (simp_all add: init_base_url new_client_def)
  show ?thesis
    using base_url_default_fixed_and_shared [OF c, where e = "simulated_endpoint ok_200"
        and ?aid1.0 = "''EAbc123''" and said = "''ESaid''"
        and vlei = "''vlei-data''" and ?aid2.0 = "''EAid''" and sig = "''sig1''" and ser = "''ser1''"
        and sg = "''sig1''" and sub = "''EAid''" and dg = "''deadbeef''" and ?aid3.0 = "''EAid''"
        and ?vlei3.0 = "''vlei-data''" and oobi = "''http://oobi''"]
    by (simp add: c b)
qed

text \<open>
  C10. In the four operations with a dynamic URL segment the identifier is appended
  to the endpoint URL as it is, with no encoding or escaping. So whenever the
  identifier holds a \<open>/\<close> or a \<open>?\<close>, the last segment of the path of the requested
  URL is not the identifier.
\<close>

theorem identifier_is_not_escaped:
  assumes "client s = VerifierClient_init arg"
  shows
    "url (last (issued (snd (check_login e ident s))))
       = verifier_base_url (client s) @ ''/authorizations/'' @ ident \<and>
     url (last (issued (snd (login e ident vlei s))))
       = verifier_base_url (client s) @ ''/presentations/'' @ ident \<and>
     url (last (issued (snd (verify_signed_headers e ident sig ser s))))
       = verifier_base_url (client s) @ ''/request/verify/'' @ ident \<and>
     url (last (issued (snd (add_root_of_trust e ident vlei3 oobi s))))
       = verifier_base_url (client s) @ ''/root_of_trust/'' @ ident \<and>
     (CHR ''/'' \<in> set ident \<or> CHR ''?'' \<in> set ident \<longrightarrow>
        last_segment (url_path (url (last (issued (snd (check_login e ident s)))))) \<noteq> ident \<and>
        last_segment (url_path (url (last (issued (snd (login e ident vlei s)))))) \<noteq> ident \<and>
        last_segment (url_path (url (last (issued (snd (verify_signed_headers e ident sig ser s))))))
          \<noteq> ident \<and>
        last_segment (url_path (url (last (issued (snd (add_root_of_trust e ident vlei3 oobi s))))))
          \<noteq> ident)"
  using assms by (simp add: facade_issued http_url init_urls last_segment_differs)

theorem identifier_is_not_escaped_witness:
  "client (new_client None) = VerifierClient_init None \<and>
   (CHR ''/'' \<in> set ''EAid/x?y=1'' \<or> CHR ''?'' \<in> set ''EAid/x?y=1'') \<and>
   url (last (issued (snd (check_login unreachable_endpoint ''EAid/x?y=1'' (new_client None)))))
     = ''http://localhost:7676/authorizations/EAid/x?y=1'' \<and>
   last_segment (url_path ''http://localhost:7676/authorizations/EAid/x?y=1'') = ''x'' \<and>
   last_segment (url_path ''http://localhost:7676/authorizations/EAid/x?y=1'') \<noteq> ''EAid/x?y=1'' \<and>
   last_segment (url_path ''http://localhost:7676/authorizations/EAbc123'') = ''EAbc123''"
proof -
  have c: "client (new_client None) = VerifierClient_init None"
    by (simp add: new_client_def)
  have b: "verifier_base_url (VerifierClient_init None) = ''http://localhost:7676''"
    by (simp add: init_base_url)
  have h: "CHR ''/'' \<in> set ''EAid/x?y=1'' \<or> CHR ''?'' \<in> set ''EAid/x?y=1''"
    by simp
  have v: "last_segment (url_path ''http://localhost:7676/authorizations/EAid/x?y=1'') = ''x''"
          "last_segment (url_path ''http://localhost:7676/authorizations/EAbc123'') = ''EAbc123''"
    by (simp_all add: last_segment_def url_path_def)
  show ?thesis
    using identifier_is_not_escaped [OF c, of unreachable_endpoint "''EAid/x?y=1''"] h v
    by (simp add: c b)
qed

section \<open>Trace lines of the adapter\<close>

text \<open>
  C7, as the specification states it, fails twice. \<open>verify_signature_request\<close> writes
  its pre-call line only: after a call that the remote answers with 200 and a JSON body
  the log holds one line. And in the other four methods the post-call line parses the
  body: when the remote answers with a body that is not JSON, the transport call has
  returned a response, yet \<open>check_login_request\<close> raises from its logging statement
  instead of returning that response, where \<open>verify_signature_request\<close>, which has no
  such statement, returns it.
\<close>

theorem two_trace_lines_counterexample:
  "logged (snd (verify_signature_request (simulated_endpoint ok_200) ''sig1'' ''EAid'' ''deadbeef''
                  (new_client None)))
     = [''Signature verification request sent with signature = sig1, submitter = EAid, digest = deadbeef''] \<and>
   fst (verify_signature_request (simulated_endpoint ok_200) ''sig1'' ''EAid'' ''deadbeef''
          (new_client None)) = Inr ok_200 \<and>
   send (simulated_endpoint not_json_502)
        (check_login_http (verifier_service_adapter (client (new_client None))) ''EAbc123'')
     = Inr not_json_502 \<and>
   log_response (simulated_endpoint not_json_502) ''login status: '' not_json_502 (new_client None)
     = (Inl JSONDecodeError, new_client None) \<and>
   fst (check_login_request (simulated_endpoint not_json_502) ''EAbc123'' (new_client None))
     = Inl JSONDecodeError \<and>
   logged (snd (check_login_request (simulated_endpoint not_json_502) ''EAbc123'' (new_client None)))
     = [''Check login request sent with: aid = EAbc123''] \<and>
   fst (verify_signature_request (simulated_endpoint not_json_502) ''sig1'' ''EAid'' ''deadbeef''
          (new_client None)) = Inr not_json_502"
  by (simp add: adapter_defs endpoint_defs new_client_def)

text \<open>
  C7, amended. Each of \<open>check_login_request\<close>, \<open>credential_presentation_request\<close>,
  \<open>verify_signed_headers_request\<close> and \<open>add_root_of_trust_request\<close>, when the HTTP
  call returns a response whose body is JSON, writes exactly two trace lines (the
  pre-call line with the arguments, then the post-call line with the serialised body),
  issues its one request, changes nothing else and returns the response as it is; when
  the body is not JSON, the parse made for the post-call line raises, so only the
  pre-call line is written and the method fails. \<open>verify_signature_request\<close> writes
  its pre-call line first and returns the transport's answer as it is, whatever the
  body. In all five methods a returned value is the response the transport gave.
\<close>

theorem trace_lines_of_adapter:
  "(send e (check_login_http (verifier_service_adapter (client s)) aid1) = Inr res \<longrightarrow>
      (content res = Some j \<longrightarrow>
         check_login_request e aid1 s =
           (Inr res,
            s\<lparr> logged := logged s @ [''Check login request sent with: aid = '' @ aid1,
                                      ''login status: '' @ dumps e j],
               issued := issued s @ [check_login_http (verifier_service_adapter (client s)) aid1] \<rparr>)) \<and>
      (content res = None \<longrightarrow>
         check_login_request e aid1 s =
           (Inl JSONDecodeError,
            s\<lparr> logged := logged s @ [''Check login request sent with: aid = '' @ aid1],
               issued := issued s @ [check_login_http (verifier_service_adapter (client s)) aid1] \<rparr>))) \<and>
   (send e (credential_presentation_http (verifier_service_adapter (client s)) said vlei) = Inr res \<longrightarrow>
      (content res = Some j \<longrightarrow>
         credential_presentation_request e said vlei s =
           (Inr res,
            s\<lparr> logged := logged s @ [''Credential presentation request sent with: said = '' @ said,
                                      ''Credential presentation response for said = '' @ said
                                        @ '':  '' @ dumps e j],
               issued := issued s @ [credential_presentation_http
                                       (verifier_service_adapter (client s)) said vlei] \<rparr>)) \<and>
      (content res = None \<longrightarrow>
         credential_presentation_request e said vlei s =
           (Inl JSONDecodeError,
            s\<lparr> logged := logged s @ [''Credential presentation request sent with: said = '' @ said],
               issued := issued s @ [credential_presentation_http
                                       (verifier_service_adapter (client s)) said vlei] \<rparr>))) \<and>
   (send e (verify_signed_headers_http (verifier_service_adapter (client s)) aid2 sig ser) = Inr res \<longrightarrow>
      (content res = Some j \<longrightarrow>
         verify_signed_headers_request e aid2 sig ser s =
           (Inr res,
            s\<lparr> logged := logged s @ [''Signed headers verification request sent with aid = '' @ aid2
                                        @ '', sig = '' @ sig @ '', ser = '' @ ser,
                                      ''Signed headers verification response for aid = '' @ aid2
                                        @ '', sig = '' @ sig @ '', ser = '' @ ser @ '':  ''
                                        @ dumps e j],
               issued := issued s @ [verify_signed_headers_http
                                       (verifier_service_adapter (client s)) aid2 sig ser] \<rparr>)) \<and>
      (content res = None \<longrightarrow>
         verify_signed_headers_request e aid2 sig ser s =
           (Inl JSONDecodeError,
            s\<lparr> logged := logged s @ [''Signed headers verification request sent with aid = '' @ aid2
                                        @ '', sig = '' @ sig @ '', ser = '' @ ser],
               issued := issued s @ [verify_signed_headers_http
                                       (verifier_service_adapter (client s)) aid2 sig ser] \<rparr>))) \<and>
   (send e (add_root_of_trust_http (verifier_service_adapter (client s)) aid3 vlei3 oobi) = Inr res \<longrightarrow>
      (content res = Some j \<longrightarrow>
         add_root_of_trust_request e aid3 vlei3 oobi s =
           (Inr res,
            s\<lparr> logged := logged s @ [''Add root of trust request send with: aid = '' @ aid3
                                        @ '', vlei = '' @ vlei3 @ '', oobi = '' @ oobi,
                                      ''Add root of trust response for aid = '' @ aid3
                                        @ '', vlei = '' @ vlei3 @ '', oobi = '' @ oobi @ '':  ''
                                        @ dumps e j],
               issued := issued s @ [add_root_of_trust_http
                                       (verifier_service_adapter (client s)) aid3 vlei3 oobi] \<rparr>)) \<and>
      (content res = None \<longrightarrow>
         add_root_of_trust_request e aid3 vlei3 oobi s =
           (Inl JSONDecodeError,
            s\<lparr> logged := logged s @ [''Add root of trust request send with: aid = '' @ aid3
                                        @ '', vlei = '' @ vlei3 @ '', oobi = '' @ oobi],
               issued := issued s @ [add_root_of_trust_http
                                       (verifier_service_adapter (client s)) aid3 vlei3 oobi] \<rparr>))) \<and>
   fst (verify_signature_request e sg sub dg s)
     = send e (verify_signature_http (verifier_service_adapter (client s)) sg sub dg) \<and>
   take (Suc (length (logged s))) (logged (snd (verify_signature_request e sg sub dg s)))
     = logged s @ [''Signature verification request sent with signature = '' @ sg
                     @ '', submitter = '' @ sub @ '', digest = '' @ dg] \<and>
   (fst (check_login_request e aid1 s) = Inr r1 \<longrightarrow>
      send e (check_login_http (verifier_service_adapter (client s)) aid1) = Inr r1) \<and>
   (fst (credential_presentation_request e said vlei s) = Inr r2 \<longrightarrow>
      send e (credential_presentation_http (verifier_service_adapter (client s)) said vlei) = Inr r2) \<and>
   (fst (verify_signed_headers_request e aid2 sig ser s) = Inr r3 \<longrightarrow>
      send e (verify_signed_headers_http (verifier_service_adapter (client s)) aid2 sig ser) = Inr r3) \<and>
   (fst (add_root_of_trust_request e aid3 vlei3 oobi s) = Inr r4 \<longrightarrow>
      send e (add_root_of_trust_http (verifier_service_adapter (client s)) aid3 vlei3 oobi) = Inr r4)"
  by (intro conjI impI;
      (erule (1) check_login_request_json
       | erule (1) check_login_request_not_json
       | erule (1) credential_presentation_request_json
       | erule (1) credential_presentation_request_not_json
       | erule (1) verify_signed_headers_request_json
       | erule (1) verify_signed_headers_request_not_json
       | erule (1) add_root_of_trust_request_json
       | erule (1) add_root_of_trust_request_not_json
       | erule request_returns_raw
       | rule fst_verify_signature_request
       | rule verify_signature_request_pre_line))

theorem trace_lines_of_adapter_witness:
  "send (simulated_endpoint ok_200)
        (check_login_http (verifier_service_adapter (client (new_client None))) ''EAbc123'') = Inr ok_200 \<and>
   content ok_200 = Some (JObject [(''msg'', JStr ''ok''), (''aid'', JStr ''EAbc123'')]) \<and>
   fst (check_login_request (simulated_endpoint ok_200) ''EAbc123'' (new_client None)) = Inr ok_200 \<and>
   logged (snd (check_login_request (simulated_endpoint ok_200) ''EAbc123'' (new_client None)))
     = [''Check login request sent with: aid = EAbc123'', ''login status: <json>''] \<and>
   send (simulated_endpoint not_json_502)
        (add_root_of_trust_http (verifier_service_adapter (client (new_client None)))
           ''EAid'' ''vlei-data'' ''http://oobi'') = Inr not_json_502 \<and>
   content not_json_502 = None \<and>
   add_root_of_trust_request (simulated_endpoint not_json_502) ''EAid'' ''vlei-data'' ''http://oobi''
       (new_client None)
     = (Inl JSONDecodeError,
        (new_client None)\<lparr> logged :=
            [''Add root of trust request send with: aid = EAid, vlei = vlei-data, oobi = http://oobi''],
          issued := [add_root_of_trust_http (verifier_service_adapter (client (new_client None)))
                       ''EAid'' ''vlei-data'' ''http://oobi''] \<rparr>)"
proof -
  have s1: "send (simulated_endpoint ok_200)
              (check_login_http (verifier_service_adapter (client (new_client None))) ''EAbc123'')
              = Inr ok_200"
    and c1: "content ok_200 = Some (JObject [(''msg'', JStr ''ok''), (''aid'', JStr ''EAbc123'')])"
    and d1: "dumps (simulated_endpoint ok_200) = (\<lambda>j. ''<json>'')"
    by (simp_all add: endpoint_defs)
  have s2: "send (simulated_endpoint not_json_502)
              (add_root_of_trust_http (verifier_service_adapter (client (new_client None)))
                 ''EAid'' ''vlei-data'' ''http://oobi'') = Inr not_json_502"
    and c2: "content not_json_502 = None"
    by (simp_all add: endpoint_defs)
  have l: "logged (new_client None) = []" "issued (new_client None) = []"
    by (simp_all add: new_client_def)
  show ?thesis
    using
      trace_lines_of_adapter [where e = "simulated_endpoint ok_200" and s = "new_client None"
        and ?aid1.0 = "''EAbc123''" and res = ok_200
        and j = "JObject [(''msg'', JStr ''ok''), (''aid'', JStr ''EAbc123'')]"]
      trace_lines_of_adapter [where e = "simulated_endpoint not_json_502" and s = "new_client None"
        and ?aid3.0 = "''EAid''" and ?vlei3.0 = "''vlei-data''" and oobi = "''http://oobi''"
        and res = not_json_502]
    by (simp add: s1 c1 d1 s2 c2 l)
qed

end
